theory Spec2Isabelle
  imports Main "HOL-Library.Sublist"
begin

section \<open>Python string primitives\<close>

text \<open>
  Text is a \<^typ>\<open>string\<close>: one \<^typ>\<open>char\<close> per code point, for the code points
  below 256. \<open>s.startswith(p)\<close>, \<open>s.endswith(p)\<close> and \<open>p in s\<close> are the prefix,
  suffix and contiguous-sublist tests of the list library.
\<close>

definition startswith :: "string \<Rightarrow> string \<Rightarrow> bool" where
  "startswith s p = prefix p s"

definition endswith :: "string \<Rightarrow> string \<Rightarrow> bool" where
  "endswith s p = suffix p s"

definition contains :: "string \<Rightarrow> string \<Rightarrow> bool" where
  "contains s p = sublist p s"

text \<open>\<open>s.endswith((p1, ..., pn))\<close> with a tuple of suffixes.\<close>

definition endswith_any :: "string \<Rightarrow> string list \<Rightarrow> bool" where
  "endswith_any s ps = list_ex (endswith s) ps"

text \<open>
  \<open>str.isspace\<close> on the code points below 256: the characters removed by
  \<open>str.strip()\<close> and matched by \<open>\s\<close>.
\<close>

definition is_space :: "char \<Rightarrow> bool" where
  "is_space c = (of_char c \<in> {9, 10, 11, 12, 13, 28, 29, 30, 31, 32, 133, 160 :: nat})"

definition lstrip :: "string \<Rightarrow> string" where
  "lstrip s = dropWhile is_space s"

definition rstrip :: "string \<Rightarrow> string" where
  "rstrip s = rev (dropWhile is_space (rev s))"

definition strip :: "string \<Rightarrow> string" where
  "strip s = rstrip (lstrip s)"

text \<open>\<open>sep.join(parts)\<close>.\<close>

fun join :: "string \<Rightarrow> string list \<Rightarrow> string" where
  "join sep [] = []"
| "join sep [x] = x"
| "join sep (x # y # ys) = x @ sep @ join sep (y # ys)"

text \<open>The slice \<open>xs[a:b]\<close> for indices \<open>0 \<le> a\<close>, \<open>0 \<le> b\<close>.\<close>

definition slice :: "'a list \<Rightarrow> nat \<Rightarrow> nat \<Rightarrow> 'a list" where
  "slice xs a b = drop a (take b xs)"

text \<open>\<open>s.count(c)\<close> for a one-character needle.\<close>

definition count_char :: "char \<Rightarrow> string \<Rightarrow> nat" where
  "count_char c s = length (filter (\<lambda>x. x = c) s)"


section \<open>File discovery: the skip filter\<close>

text \<open>
  \<open>ASTParser._should_skip_file\<close>: the path is the whole \<open>str(file_path)\<close>; the loop
  over the patterns returns at the first hit.
\<close>

fun should_skip_file :: "string \<Rightarrow> string list \<Rightarrow> bool" where
  "should_skip_file file_str [] = False"
| "should_skip_file file_str (pattern # rest) =
     (if startswith pattern ''*.'' then
        (if endswith file_str (drop 1 pattern) then True
         else should_skip_file file_str rest)
      else if startswith pattern ''*'' then
        (if contains file_str (drop 1 pattern) then True
         else should_skip_file file_str rest)
      else
        (if contains file_str pattern then True
         else should_skip_file file_str rest))"

text \<open>The \<open>skip_patterns\<close> list of \<open>ASTParser.parse_project\<close>.\<close>

definition skip_patterns :: "string list" where
  "skip_patterns =
    [''node_modules'', ''.git'', ''.svn'', ''.hg'', ''.bzr'',
     ''__pycache__'', ''.pytest_cache'', ''.mypy_cache'',
     ''target'', ''build'', ''dist'', ''out'', ''bin'',
     ''.DS_Store'', ''Thumbs.db'', ''.idea'', ''.vscode'',
     ''*.log'', ''*.tmp'', ''*.temp'', ''*.bak'', ''*.backup'',
     ''*.min.js'', ''*.min.css'', ''*.map'',
     ''*.png'', ''*.jpg'', ''*.jpeg'', ''*.gif'', ''*.bmp'', ''*.ico'',
     ''*.mp3'', ''*.mp4'', ''*.avi'', ''*.mov'', ''*.wmv'',
     ''*.zip'', ''*.tar'', ''*.gz'', ''*.rar'', ''*.7z'',
     ''*.pdf'', ''*.doc'', ''*.docx'', ''*.xls'', ''*.xlsx'',
     ''*.ppt'', ''*.pptx'', ''*.odt'', ''*.ods'', ''*.odp'']"

text \<open>
  The filter as \<open>parse_project\<close> applies it to a candidate found by \<open>rglob\<close>: the
  file is kept when \<open>_should_skip_file\<close> is false.
\<close>

definition discovery_keeps :: "string \<Rightarrow> bool" where
  "discovery_keeps file_str = (\<not> should_skip_file file_str skip_patterns)"


section \<open>Language detection\<close>

text \<open>\<open>str.lower()\<close> on the code points below 256.\<close>

definition lower_char :: "char \<Rightarrow> char" where
  "lower_char c =
     (let n = (of_char c :: nat)
      in if (65 \<le> n \<and> n \<le> 90) \<or> (192 \<le> n \<and> n \<le> 214) \<or> (216 \<le> n \<and> n \<le> 222)
         then char_of (n + 32) else c)"

definition lower :: "string \<Rightarrow> string" where
  "lower s = map lower_char s"

text \<open>
  \<open>ASTParser._detect_language_from_file\<close>: one \<open>if\<close>/\<open>elif\<close> chain on the
  lower-cased path, in the order of the source. The membership tests compare the whole
  lower-cased path with the listed names.
\<close>

definition detect_language_from_file :: "string \<Rightarrow> string \<Rightarrow> string" where
  "detect_language_from_file file_path default_language =
     (let p = lower file_path in
      if endswith_any p [''.py'', ''.pyw'', ''.pyi'', ''.pyx'', ''.pxd'', ''.pxi''] then ''python''
      else if endswith_any p [''.java'', ''.jav''] then ''java''
      else if endswith_any p [''.js'', ''.jsx'', ''.mjs'', ''.cjs''] then ''javascript''
      else if endswith_any p [''.ts'', ''.tsx'', ''.mts'', ''.cts''] then ''typescript''
      else if endswith_any p [''.cbl'', ''.cob'', ''.cpy'', ''.cobol''] then ''cobol''
      else if endswith_any p [''.cpp'', ''.cc'', ''.cxx'', ''.c++'', ''.h'', ''.hpp'', ''.hxx'', ''.hh'', ''.h++''] then ''cpp''
      else if endswith_any p [''.c'', ''.h''] then ''c''
      else if endswith p ''.go'' then ''go''
      else if endswith p ''.rs'' then ''rust''
      else if endswith_any p [''.php'', ''.php3'', ''.php4'', ''.php5'', ''.phtml''] then ''php''
      else if endswith_any p [''.rb'', ''.rbw''] then ''ruby''
      else if endswith p ''.sql'' then ''sql''
      else if endswith_any p [''.html'', ''.htm'', ''.xhtml''] then ''html''
      else if endswith_any p [''.css'', ''.scss'', ''.sass'', ''.less''] then ''css''
      else if endswith_any p [''.xml'', ''.xsd'', ''.xsl''] then ''xml''
      else if endswith p ''.json'' then ''json''
      else if endswith_any p [''.yml'', ''.yaml''] then ''yaml''
      else if endswith p ''.toml'' then ''toml''
      else if endswith_any p [''.ini'', ''.cfg'', ''.conf''] then ''ini''
      else if endswith_any p [''.md'', ''.markdown''] then ''markdown''
      else if p \<in> set [''dockerfile'', ''.dockerfile''] then ''dockerfile''
      else if p \<in> set [''makefile'', ''.mk'', ''.make''] then ''makefile''
      else if p \<in> set [''cmakelists.txt'', ''.cmake''] then ''cmake''
      else if p \<in> set [''package.json'', ''package-lock.json'', ''yarn.lock'', ''pnpm-lock.yaml''] then ''npm''
      else if p \<in> set [''requirements.txt'', ''setup.py'', ''pyproject.toml'', ''pipfile'', ''poetry.lock''] then ''pip''
      else if p \<in> set [''cargo.toml'', ''cargo.lock''] then ''cargo''
      else if p \<in> set [''go.mod'', ''go.sum''] then ''go_mod''
      else if p \<in> set [''composer.json'', ''composer.lock''] then ''composer''
      else if p \<in> set [''gemfile'', ''gemfile.lock''] then ''gemfile''
      else if p \<in> set [''pubspec.yaml'', ''pubspec.lock''] then ''pubspec''
      else if endswith p ''.cabal'' then ''cabal''
      else if p \<in> set [''stack.yaml''] then ''stack''
      else if p \<in> set [''mix.exs'', ''mix.lock''] then ''mix''
      else if p \<in> set [''rebar.config''] then ''rebar''
      else if p \<in> set [''project.clj''] then ''leiningen''
      else if p \<in> set [''build.sbt'', ''project/build.properties''] then ''sbt''
      else if p \<in> set [''gradlew'', ''gradlew.bat''] then ''gradle_wrapper''
      else if p \<in> set [''mvnw'', ''mvnw.cmd''] then ''maven_wrapper''
      else if p \<in> set [''pom.xml'', ''build.gradle'', ''gradle.properties'', ''settings.gradle''] then ''gradle''
      else if p \<in> set [''maven''] then ''maven''
      else default_language)"


section \<open>Block-span primitives\<close>

definition nl :: string where
  "nl = [CHR 0x0A]"

text \<open>\<open>line.count('{') - line.count('}')\<close>.\<close>

definition brace_delta :: "string \<Rightarrow> int" where
  "brace_delta line = int (count_char CHR ''{'' line) - int (count_char CHR ''}'' line)"

text \<open>
  The first loop of \<open>ASTParser._extract_code_block\<close>, run on \<open>lines[i:]\<close> with the
  running \<open>brace_count\<close>: it returns the count it leaves behind and the \<open>end_idx\<close> it
  assigned before \<open>break\<close>, or \<open>None\<close> when the range was exhausted.
\<close>

fun find_open :: "string list \<Rightarrow> nat \<Rightarrow> int \<Rightarrow> int \<times> nat option" where
  "find_open [] i brace_count = (brace_count, None)"
| "find_open (line # rest) i brace_count =
     (let brace_count' = brace_count + brace_delta line
      in if brace_count' > 0 then (brace_count', Some (i + 1))
         else find_open rest (i + 1) brace_count')"

text \<open>The second loop, which stops when the count is no longer positive.\<close>

fun find_close :: "string list \<Rightarrow> nat \<Rightarrow> int \<Rightarrow> int \<times> nat option" where
  "find_close [] i brace_count = (brace_count, None)"
| "find_close (line # rest) i brace_count =
     (let brace_count' = brace_count + brace_delta line
      in if brace_count' \<le> 0 then (brace_count', Some (i + 1))
         else find_close rest (i + 1) brace_count')"

text \<open>
  The value of \<open>end_idx\<close> when the two loops are done. \<open>end_idx\<close> starts as
  \<open>start_idx\<close>, and the second loop starts at the \<open>end_idx\<close> the first one left.
\<close>

definition code_block_end :: "string list \<Rightarrow> nat \<Rightarrow> nat" where
  "code_block_end lines start_idx =
     (case find_open (drop start_idx lines) start_idx 0 of
        (brace_count, opened) \<Rightarrow>
          (let end_idx = (case opened of None \<Rightarrow> start_idx | Some e \<Rightarrow> e)
           in case find_close (drop end_idx lines) end_idx brace_count of
                (brace_count', closed) \<Rightarrow>
                  (case closed of None \<Rightarrow> end_idx | Some e \<Rightarrow> e)))"

text \<open>
  \<open>ASTParser._extract_code_block(lines, start_line, content)\<close>. Every caller passes a
  line number \<open>i\<close> of \<open>enumerate(lines, 1)\<close>, so \<open>start_line \<ge> 1\<close>; Python's negative
  indexing for \<open>start_line \<le> 0\<close> is outside this model. For \<open>start_line \<ge> 1\<close> nothing
  in the body raises, so the \<open>except\<close> branch is not reached.
\<close>

definition code_block_span :: "string list \<Rightarrow> nat \<Rightarrow> string list" where
  "code_block_span lines start_line =
     slice lines (start_line - 1) (code_block_end lines (start_line - 1))"

definition extract_code_block :: "string list \<Rightarrow> nat \<Rightarrow> string" where
  "extract_code_block lines start_line = join nl (code_block_span lines start_line)"

text \<open>\<open>line.strip().endswith(';')\<close>.\<close>

definition ends_with_semicolon :: "string \<Rightarrow> bool" where
  "ends_with_semicolon line = endswith (strip line) '';''"

text \<open>
  The loop of \<open>ASTParser._extract_variable_declaration\<close> over the lines
  \<open>lines[start_idx + 1 : min(start_idx + 5, len(lines))]\<close>.
\<close>

fun append_until_semicolon :: "string \<Rightarrow> string list \<Rightarrow> string" where
  "append_until_semicolon line [] = line"
| "append_until_semicolon line (l # rest) =
     (let line' = line @ nl @ l
      in if ends_with_semicolon l then line' else append_until_semicolon line' rest)"

text \<open>
  \<open>ASTParser._extract_variable_declaration(lines, start_line, content)\<close>, for
  \<open>start_line \<ge> 1\<close>. When \<open>start_line\<close> is past the last line, \<open>lines[start_idx]\<close>
  raises and the \<open>except\<close> branch returns the empty string.
\<close>

definition extract_variable_declaration :: "string list \<Rightarrow> nat \<Rightarrow> string" where
  "extract_variable_declaration lines start_line =
     (let start_idx = start_line - 1
      in if length lines \<le> start_idx then []
         else (let line = lines ! start_idx
               in if ends_with_semicolon line then line
                  else append_until_semicolon line
                         (slice lines (start_idx + 1) (min (start_idx + 5) (length lines)))))"


section \<open>Structural records\<close>

text \<open>
  Python values that end up in a record or come out of \<open>json.loads\<close>: \<open>None\<close>,
  booleans, numbers (kept as their decimal text), strings, lists and dicts. A dict is an
  association list with distinct keys, read with \<open>map_of\<close>.
\<close>

datatype json =
    JNull
  | JBool bool
  | JNumber string
  | JString string
  | JArray "json list"
  | JObject "(string \<times> json) list"

text \<open>
  A node of \<open>ast_tree\<close>: its \<open>node_type\<close>, its other entries, its \<open>children\<close>. A
  member of \<open>functions\<close>, \<open>classes\<close> or \<open>variables\<close>: \<open>name\<close>, \<open>line\<close>, the
  language-specific entries, \<open>full_code\<close>.
\<close>

datatype node = Node string "(string \<times> json) list" "node list"

datatype member = Member string nat "(string \<times> json) list" string

record structural_record =
  file_path :: string
  language :: string
  "imports" :: "string list"
  "functions" :: "member list"
  "classes" :: "member list"
  "variables" :: "member list"
  ast_tree :: node
  full_source_code :: string

text \<open>The exceptions that the modelled code can meet.\<close>

datatype py_exn =
    SyntaxError
  | JSONDecodeError
  | RecursionError
  | UnicodeDecodeError
  | OSError
  | AttributeError

text \<open>
  What the body of an extractor's \<open>try\<close> block computes from the path and the text
  before the \<open>return\<close>: the four lists and the tree, or the exception it raised.
\<close>

record found =
  found_imports :: "string list"
  found_functions :: "member list"
  found_classes :: "member list"
  found_variables :: "member list"
  found_tree :: node

type_synonym analysis = "string \<Rightarrow> string \<Rightarrow> py_exn + found"

text \<open>
  The shape shared by \<open>_parse_python_file\<close>, \<open>_parse_java_file\<close>, ...,
  \<open>_parse_cmake_file\<close>: the body runs inside \<open>try\<close>; its \<open>return\<close> builds the
  record with the fixed language tag and \<open>"full_source_code": content\<close>, where
  \<open>content\<close> is the parameter, which no extractor reassigns; \<open>except Exception\<close>
  prints and returns \<open>None\<close>.
\<close>

definition extractor :: "string \<Rightarrow> analysis \<Rightarrow> string \<Rightarrow> string \<Rightarrow> structural_record option" where
  "extractor tag body path text =
     (case body path text of
        Inl e \<Rightarrow> None
      | Inr m \<Rightarrow>
          Some \<lparr>file_path = path, language = tag,
                imports = found_imports m, functions = found_functions m,
                classes = found_classes m, variables = found_variables m,
                ast_tree = found_tree m, full_source_code = text\<rparr>)"

text \<open>
  \<open>_parse_python_file\<close>: the body is \<open>ast.parse(content)\<close>, which raises
  \<open>SyntaxError\<close> on text that is not Python, and the walks over the tree.
\<close>

definition parse_python_file :: "analysis \<Rightarrow> string \<Rightarrow> string \<Rightarrow> structural_record option" where
  "parse_python_file body path text = extractor ''python'' body path text"

text \<open>
  \<open>_parse_json_file\<close>: \<open>json.loads\<close> is a parameter. A \<open>JSONDecodeError\<close> is caught
  inside and the text kept as a \<open>TextContent\<close> node; any other exception reaches the
  outer \<open>except\<close>.
\<close>

definition parse_json_file :: "(string \<Rightarrow> py_exn + json) \<Rightarrow> string \<Rightarrow> string \<Rightarrow> structural_record option" where
  "parse_json_file loads path text =
     (let tree = (case loads text of
                    Inr json_data \<Rightarrow> Some (Node ''JSONFile'' [] [Node ''JSONRoot'' [(''data'', json_data)] []])
                  | Inl JSONDecodeError \<Rightarrow>
                      Some (Node ''JSONFile'' [] [Node ''TextContent'' [(''content'', JString text)] []])
                  | Inl e \<Rightarrow> None)
      in case tree of
           None \<Rightarrow> None
         | Some t \<Rightarrow>
             Some \<lparr>file_path = path, language = ''json'',
                   imports = [], functions = [], classes = [], variables = [],
                   ast_tree = t, full_source_code = text\<rparr>)"

text \<open>\<open>s.split(sep)\<close> for a one-character separator.\<close>

fun split_on :: "char \<Rightarrow> string \<Rightarrow> string list" where
  "split_on sep [] = [[]]"
| "split_on sep (c # cs) =
     (if c = sep then [] # split_on sep cs
      else (case split_on sep cs of
              [] \<Rightarrow> [[c]]
            | piece # pieces \<Rightarrow> (c # piece) # pieces))"

text \<open>\<open>str(i)\<close> for a natural number.\<close>

fun str_of_nat :: "nat \<Rightarrow> string" where
  "str_of_nat n =
     (if n < 10 then [char_of (48 + n)]
      else str_of_nat (n div 10) @ [char_of (48 + n mod 10)])"

text \<open>
  \<open>str.capitalize()\<close>, for the code points whose upper case is one code point below
  256 (language names are ASCII).
\<close>

definition upper_char :: "char \<Rightarrow> char" where
  "upper_char c =
     (let n = (of_char c :: nat)
      in if (97 \<le> n \<and> n \<le> 122) \<or> (224 \<le> n \<and> n \<le> 246) \<or> (248 \<le> n \<and> n \<le> 254)
         then char_of (n - 32) else c)"

definition capitalize :: "string \<Rightarrow> string" where
  "capitalize s = (case s of [] \<Rightarrow> [] | c # cs \<Rightarrow> upper_char c # lower cs)"

text \<open>
  \<open>_parse_generic_file\<close>: every line of \<open>content.split('\n')\<close> that is not blank
  after \<open>strip\<close> becomes a statement, numbered from 1.
\<close>

definition generic_statements :: "string \<Rightarrow> (nat \<times> string) list" where
  "generic_statements text =
     filter (\<lambda>(i, l). l \<noteq> [])
       (map (\<lambda>(i, l). (i, strip l))
          (zip [1 ..< Suc (length (split_on CHR 0x0A text))] (split_on CHR 0x0A text)))"

definition parse_generic_file :: "string \<Rightarrow> string \<Rightarrow> string \<Rightarrow> structural_record option" where
  "parse_generic_file path text lang =
     Some \<lparr>file_path = path, language = lang,
           imports = [],
           functions = map (\<lambda>(i, l). Member (''line_'' @ str_of_nat i) i
                                        [(''type'', JString ''statement'')] l)
                         (generic_statements text),
           classes = [], variables = [],
           ast_tree = Node (capitalize lang @ ''File'') []
                        (map (\<lambda>(i, l). Node ''Statement''
                                          [(''line'', JNumber (str_of_nat i)), (''content'', JString l)] [])
                           (generic_statements text)),
           full_source_code = text\<rparr>"

text \<open>
  The dispatch of \<open>parse_file\<close> on the detected language. \<open>bodies\<close> gives, for each
  extractor, the body of its \<open>try\<close> block.
\<close>

definition extract_by_language ::
    "(string \<Rightarrow> analysis) \<Rightarrow> (string \<Rightarrow> py_exn + json) \<Rightarrow> string \<Rightarrow> string \<Rightarrow> string
       \<Rightarrow> structural_record option" where
  "extract_by_language bodies loads actual_language path text =
     (if actual_language = ''python'' then parse_python_file (bodies ''python'') path text
      else if actual_language = ''java'' then extractor ''java'' (bodies ''java'') path text
      else if actual_language = ''javascript'' then extractor ''javascript'' (bodies ''javascript'') path text
      else if actual_language = ''typescript'' then extractor ''typescript'' (bodies ''typescript'') path text
      else if actual_language = ''cobol'' then extractor ''cobol'' (bodies ''cobol'') path text
      else if actual_language \<in> set [''cpp'', ''c''] then extractor ''cpp'' (bodies ''cpp'') path text
      else if actual_language = ''go'' then extractor ''go'' (bodies ''go'') path text
      else if actual_language = ''rust'' then extractor ''rust'' (bodies ''rust'') path text
      else if actual_language = ''php'' then extractor ''php'' (bodies ''php'') path text
      else if actual_language = ''ruby'' then extractor ''ruby'' (bodies ''ruby'') path text
      else if actual_language = ''sql'' then extractor ''sql'' (bodies ''sql'') path text
      else if actual_language = ''html'' then extractor ''html'' (bodies ''html'') path text
      else if actual_language = ''css'' then extractor ''css'' (bodies ''css'') path text
      else if actual_language = ''xml'' then extractor ''xml'' (bodies ''xml'') path text
      else if actual_language = ''json'' then parse_json_file loads path text
      else if actual_language = ''yaml'' then extractor ''yaml'' (bodies ''yaml'') path text
      else if actual_language = ''toml'' then extractor ''toml'' (bodies ''toml'') path text
      else if actual_language = ''ini'' then extractor ''ini'' (bodies ''ini'') path text
      else if actual_language = ''markdown'' then extractor ''markdown'' (bodies ''markdown'') path text
      else if actual_language = ''dockerfile'' then extractor ''dockerfile'' (bodies ''dockerfile'') path text
      else if actual_language = ''makefile'' then extractor ''makefile'' (bodies ''makefile'') path text
      else if actual_language = ''cmake'' then extractor ''cmake'' (bodies ''cmake'') path text
      else parse_generic_file path text actual_language)"


definition MAX_FILE_SIZE_MB :: nat where
  "MAX_FILE_SIZE_MB = 10"

text \<open>
  \<open>parse_file\<close>: \<open>file_size\<close> is the outcome of \<open>os.path.getsize\<close> and
  \<open>read_result\<close> that of opening and reading the file as UTF-8; both may raise inside
  the \<open>try\<close>, whose \<open>except Exception\<close> returns \<open>None\<close>.
\<close>

definition parse_file ::
    "(string \<Rightarrow> analysis) \<Rightarrow> (string \<Rightarrow> py_exn + json) \<Rightarrow> py_exn + nat \<Rightarrow> py_exn + string
       \<Rightarrow> string \<Rightarrow> string \<Rightarrow> structural_record option" where
  "parse_file bodies loads file_size read_result path lang =
     (case file_size of
        Inl e \<Rightarrow> None
      | Inr size_bytes \<Rightarrow>
          if size_bytes > MAX_FILE_SIZE_MB * 1024 * 1024 then None
          else (case read_result of
                  Inl e \<Rightarrow> None
                | Inr text \<Rightarrow>
                    extract_by_language bodies loads
                      (detect_language_from_file path lang) path text))"









section \<open>Regular expressions as \<open>re\<close> matches them\<close>

text \<open>
  The constructs of the patterns in \<open>code_converter.py\<close>: one character of a class,
  sequence, greedy \<open>?\<close> and \<open>*\<close>, lazy \<open>*?\<close>, and numbered capture groups.
\<close>

datatype rx =
    Eps
  | Sat "char \<Rightarrow> bool"
  | Seq rx rx
  | Opt rx
  | Star rx
  | Lazy rx
  | Grp nat rx

text \<open>
  A matcher state is the text not yet consumed and the groups closed so far; a group is
  stored with the number of characters that were left at its start and at its end.
  \<open>ms r st\<close> lists the states in which a match of \<open>r\<close> begun in \<open>st\<close> can end, in
  the order in which the backtracking matcher of \<open>re\<close> tries them: a greedy repetition
  tries one more iteration before stopping, a lazy one stops first. An iteration that
  consumes nothing is not repeated. The length test in the sequence case is always true
  (a match never gives text back); it is there for the termination proof.
\<close>

function ms :: "rx \<Rightarrow> string \<times> (nat \<times> nat \<times> nat) list \<Rightarrow> (string \<times> (nat \<times> nat \<times> nat) list) list" where
  "ms Eps st = [st]"
| "ms (Sat P) st =
     (case fst st of
        [] \<Rightarrow> []
      | x # xs \<Rightarrow> if P x then [(xs, snd st)] else [])"
| "ms (Seq r1 r2) st =
     concat (map (\<lambda>st'. if length (fst st') \<le> length (fst st) then ms r2 st' else [])
                 (ms r1 st))"
| "ms (Opt r) st = ms r st @ [st]"
| "ms (Star r) st =
     concat (map (\<lambda>st'. if length (fst st') < length (fst st) then ms (Star r) st' else [])
                 (ms r st)) @ [st]"
| "ms (Lazy r) st =
     st # concat (map (\<lambda>st'. if length (fst st') < length (fst st) then ms (Lazy r) st' else [])
                      (ms r st))"
| "ms (Grp k r) st =
     map (\<lambda>st'. (fst st', (k, length (fst st), length (fst st')) # snd st')) (ms r st)"
  by pat_completeness auto
termination
  by (relation "measures [\<lambda>(r, st). length (fst st), \<lambda>(r, st). size r]") auto

declare ms.simps(5-6) [simp del]

text \<open>
  \<open>m.start(k)\<close> and \<open>m.end(k)\<close> in the text \<open>w\<close> whose end is the end of the
  searched string, and \<open>m.group(k)\<close>.
\<close>

definition group_span :: "string \<Rightarrow> (nat \<times> nat \<times> nat) list \<Rightarrow> nat \<Rightarrow> (nat \<times> nat) option" where
  "group_span w c k =
     (case map_of c k of
        None \<Rightarrow> None
      | Some (a, b) \<Rightarrow> Some (length w - a, length w - b))"

definition group_text :: "string \<Rightarrow> (nat \<times> nat \<times> nat) list \<Rightarrow> nat \<Rightarrow> string" where
  "group_text w c k =
     (case group_span w c k of
        None \<Rightarrow> []
      | Some (i, j) \<Rightarrow> slice w i j)"

text \<open>
  \<open>re.search\<close>: the first position at which the pattern matches, with the first way
  of matching there; the result is the groups of that match.
\<close>

fun search :: "rx \<Rightarrow> string \<Rightarrow> (nat \<times> nat \<times> nat) list option" where
  "search r [] = (case ms r ([], []) of [] \<Rightarrow> None | m # _ \<Rightarrow> Some (snd m))"
| "search r (x # xs) = (case ms r (x # xs, []) of [] \<Rightarrow> search r xs | m # _ \<Rightarrow> Some (snd m))"

text \<open>
  \<open>re.findall\<close> for a pattern with one group: group 1 of each match, the matches
  found from left to right without overlap.
\<close>

function findall :: "rx \<Rightarrow> string \<Rightarrow> string list" where
  "findall r s =
     (case ms r (s, []) of
        [] \<Rightarrow> (case s of [] \<Rightarrow> [] | x # xs \<Rightarrow> findall r xs)
      | m # _ \<Rightarrow>
          group_text s (snd m) 1 #
            (if length (fst m) < length s then findall r (fst m)
             else (case s of [] \<Rightarrow> [] | x # xs \<Rightarrow> findall r xs)))"
  by pat_completeness auto
termination
  by (relation "measure (\<lambda>(r, s). length s)") auto

declare findall.simps [simp del]

text \<open>
  \<open>re.sub\<close>: each match is replaced by \<open>repl\<close> of the text from the match on and
  its groups; the characters between matches are copied.
\<close>

function sub :: "rx \<Rightarrow> (string \<Rightarrow> (nat \<times> nat \<times> nat) list \<Rightarrow> string) \<Rightarrow> string \<Rightarrow> string" where
  "sub r repl s =
     (case ms r (s, []) of
        [] \<Rightarrow> (case s of [] \<Rightarrow> [] | x # xs \<Rightarrow> x # sub r repl xs)
      | m # _ \<Rightarrow>
          repl s (snd m) @
            (if length (fst m) < length s then sub r repl (fst m)
             else (case s of [] \<Rightarrow> [] | x # xs \<Rightarrow> x # sub r repl xs)))"
  by pat_completeness auto
termination
  by (relation "measure (\<lambda>(r, repl, s). length s)") auto

declare sub.simps [simp del]

definition chr :: "char \<Rightarrow> rx" where
  "chr c = Sat (\<lambda>x. x = c)"

definition seqs :: "rx list \<Rightarrow> rx" where
  "seqs rs = foldr Seq rs Eps"

definition lit :: "string \<Rightarrow> rx" where
  "lit s = seqs (map chr s)"

definition dq :: char where
  "dq = CHR 0x22"

definition bs :: char where
  "bs = CHR 0x5C"

text \<open>\<open>\w\<close> on the code points below 256: letters, digits and the underscore.\<close>

definition is_word :: "char \<Rightarrow> bool" where
  "is_word c =
     (let n = (of_char c :: nat)
      in (48 \<le> n \<and> n \<le> 57) \<or> (65 \<le> n \<and> n \<le> 90) \<or> n = 95 \<or> (97 \<le> n \<and> n \<le> 122)
         \<or> n = 170 \<or> n = 178 \<or> n = 179 \<or> n = 181 \<or> n = 185 \<or> n = 186
         \<or> (188 \<le> n \<and> n \<le> 190) \<or> (192 \<le> n \<and> n \<le> 214) \<or> (216 \<le> n \<and> n \<le> 246)
         \<or> 248 \<le> n)"

text \<open>The dot: any character but the newline, or any character under \<open>re.DOTALL\<close>.\<close>

definition dot :: "bool \<Rightarrow> rx" where
  "dot dotall = Sat (\<lambda>c. dotall \<or> c \<noteq> CHR 0x0A)"

text \<open>\<open>[^"]*(?:\\.[^"]*)*\<close>\<close>

definition quoted_body :: "bool \<Rightarrow> rx" where
  "quoted_body dotall =
     Seq (Star (Sat (\<lambda>c. c \<noteq> dq)))
         (Star (seqs [chr bs, dot dotall, Star (Sat (\<lambda>c. c \<noteq> dq))]))"

text \<open>\<open>"content":\s*"([^"]*(?:\\.[^"]*)*)"\<close>\<close>

definition content_pattern :: "bool \<Rightarrow> rx" where
  "content_pattern dotall =
     seqs [lit (dq # ''content'' @ [dq] @ '':''), Star (Sat is_space), chr dq,
           Grp 1 (quoted_body dotall), chr dq]"

text \<open>\<open>,(\s*[}\]])\<close>\<close>

definition trailing_comma_pattern :: rx where
  "trailing_comma_pattern =
     seqs [chr CHR '','',
           Grp 1 (Seq (Star (Sat is_space)) (Sat (\<lambda>c. c = CHR ''}'' \<or> c = CHR '']'')))]"

text \<open>\<open>(\s*)(\w+)(\s*):\<close>\<close>

definition bare_key_pattern :: rx where
  "bare_key_pattern =
     seqs [Grp 1 (Star (Sat is_space)),
           Grp 2 (Seq (Sat is_word) (Star (Sat is_word))),
           Grp 3 (Star (Sat is_space)),
           chr CHR '':'']"


section \<open>The recovery parser\<close>

text \<open>
  \<open>s.replace(old, new)\<close>; \<open>old\<close> is a non-empty literal at every call of the
  source.
\<close>

function replace :: "string \<Rightarrow> string \<Rightarrow> string \<Rightarrow> string" where
  "replace old new s =
     (if old = [] then s
      else if prefix old s then new @ replace old new (drop (length old) s)
      else (case s of [] \<Rightarrow> [] | c # cs \<Rightarrow> c # replace old new cs))"
  by pat_completeness auto
termination
  by (relation "measure (\<lambda>(old, new, s). length s)") (auto simp: prefix_def)

declare replace.simps [simp del]

text \<open>\<open>s.find(c)\<close> and \<open>s.rfind(c)\<close> for one character, \<open>None\<close> for \<open>-1\<close>.\<close>

definition find_char :: "char \<Rightarrow> string \<Rightarrow> nat option" where
  "find_char c s =
     (if c \<in> set s then Some (length (takeWhile (\<lambda>x. x \<noteq> c) s)) else None)"

definition rfind_char :: "char \<Rightarrow> string \<Rightarrow> nat option" where
  "rfind_char c s =
     (if c \<in> set s then Some (length s - 1 - length (takeWhile (\<lambda>x. x \<noteq> c) (rev s)))
      else None)"

text \<open>
  \<open>CodeConverter._fix_common_json_issues\<close>. Nothing in its \<open>try\<close> block raises on a
  string, so the \<open>except\<close> branch is not reached.
\<close>

definition escape_content :: "string \<Rightarrow> string" where
  "escape_content json_str =
     (case search (content_pattern False) json_str of
        None \<Rightarrow> json_str
      | Some c \<Rightarrow>
          (case group_span json_str c 1 of
             None \<Rightarrow> json_str
           | Some (content_start, content_end) \<Rightarrow>
               take content_start json_str
               @ replace [CHR 0x09] (bs # ''t'')
                   (replace [CHR 0x0A] (bs # ''n'')
                      (replace [dq] [bs, dq] (slice json_str content_start content_end)))
               @ drop content_end json_str))"

definition fix_common_json_issues :: "string \<Rightarrow> string" where
  "fix_common_json_issues json_str =
     sub bare_key_pattern
         (\<lambda>s c. group_text s c 1 @ [dq] @ group_text s c 2 @ [dq] @ group_text s c 3 @ '':'')
       (sub trailing_comma_pattern (\<lambda>s c. group_text s c 1)
          (escape_content json_str))"

text \<open>\<open>os.path.basename\<close>, the root of \<open>os.path.splitext\<close>, \<open>_get_file_extension\<close>.\<close>

definition basename :: "string \<Rightarrow> string" where
  "basename p = rev (takeWhile (\<lambda>c. c \<noteq> CHR ''/'') (rev p))"

definition splitext_root :: "string \<Rightarrow> string" where
  "splitext_root p =
     (case rfind_char CHR ''.'' (basename p) of
        None \<Rightarrow> p
      | Some d \<Rightarrow>
          if list_ex (\<lambda>c. c \<noteq> CHR ''.'') (take d (basename p))
          then take (length p - (length (basename p) - d)) p
          else p)"

definition get_file_extension :: "string \<Rightarrow> string" where
  "get_file_extension lang =
     (case map_of [(''python'', ''py''), (''java'', ''java''), (''javascript'', ''js''),
                   (''typescript'', ''ts''), (''go'', ''go''), (''rust'', ''rs''),
                   (''cpp'', ''cpp''), (''c'', ''c'')] (lower lang) of
        None \<Rightarrow> ''txt''
      | Some e \<Rightarrow> e)"

text \<open>
  The patterns of \<open>_extract_content_manually\<close>. The target language is spliced into the
  first one as it is, so the \<open>?\<close> applies to the last character before it; the language
  names are letters, and a name with a character that \<open>re\<close> reads as an operator is
  outside this model. All searches there use \<open>re.DOTALL\<close>.
\<close>

definition fence :: string where
  "fence = ''```''"

definition code_block_pattern :: "string \<Rightarrow> rx" where
  "code_block_pattern target_language =
     seqs [lit (butlast (fence @ target_language)), Opt (chr (last (fence @ target_language))),
           Star (Sat is_space), chr CHR 0x0A, Grp 1 (Lazy (dot True)), lit (CHR 0x0A # fence)]"

definition generic_pattern :: rx where
  "generic_pattern =
     seqs [lit fence, Star (Sat is_space), chr CHR 0x0A, Grp 1 (Lazy (dot True)),
           lit (CHR 0x0A # fence)]"

definition content_patterns :: "rx list" where
  "content_patterns =
     [content_pattern True,
      seqs [lit ''content:'', Star (Sat is_space), chr dq, Grp 1 (quoted_body True), chr dq],
      seqs [lit ''content:'', Star (Sat is_space), chr CHR ''`'',
            Grp 1 (Star (Sat (\<lambda>c. c \<noteq> CHR ''`''))), chr CHR ''`''],
      seqs [lit ''content:'', Star (Sat is_space), lit [dq, dq, dq],
            Grp 1 (Star (Sat (\<lambda>c. c \<noteq> dq))), lit [dq, dq, dq]]]"

definition unescape :: "string \<Rightarrow> string" where
  "unescape s = replace [bs, dq] [dq] (replace (bs # ''t'') [CHR 0x09] (replace (bs # ''n'') [CHR 0x0A] s))"

fun first_content :: "rx list \<Rightarrow> string \<Rightarrow> string option" where
  "first_content [] s = None"
| "first_content (pattern # rest) s =
     (case search pattern s of
        None \<Rightarrow> first_content rest s
      | Some c \<Rightarrow> Some (unescape (group_text s c 1)))"

text \<open>\<open>CodeConverter._extract_content_manually\<close>; the result is the dict it returns.\<close>

definition extract_content_manually :: "string \<Rightarrow> string \<Rightarrow> string \<Rightarrow> json option" where
  "extract_content_manually ai_response target_language original_file_path =
     (let name = splitext_root (basename original_file_path) @ ''.''
                   @ get_file_extension target_language;
          code_blocks = findall (code_block_pattern target_language) ai_response
                          @ findall generic_pattern ai_response;
          code_blocks' = (if code_blocks = []
                          then (case first_content content_patterns ai_response of
                                  None \<Rightarrow> []
                                | Some c \<Rightarrow> [c])
                          else code_blocks)
      in case code_blocks' of
           [] \<Rightarrow> None
         | c # _ \<Rightarrow>
             Some (JObject [(''filename'', JString name), (''content'', JString c),
                            (''dependencies'', JObject []),
                            (''notes'', JString (''Manually extracted from AI response for ''
                                                   @ original_file_path))]))"

text \<open>
  Strategies 1 and 2 of \<open>CodeConverter._parse_single_file_conversion\<close>: the value of
  \<open>json_data\<close> before strategy 3, or the exception that leaves for the outer
  \<open>except\<close>. \<open>json.loads\<close> is a parameter; after the direct parse the code calls
  \<open>json_data.keys()\<close>, which only a dict has.
\<close>

definition json_candidate :: "string \<Rightarrow> string option" where
  "json_candidate ai_response =
     (case find_char CHR ''{'' ai_response of
        None \<Rightarrow> None
      | Some start_idx \<Rightarrow>
          (case rfind_char CHR ''}'' ai_response of
             None \<Rightarrow> None
           | Some last_idx \<Rightarrow> Some (slice ai_response start_idx (last_idx + 1))))"

definition recover_json :: "(string \<Rightarrow> py_exn + json) \<Rightarrow> string \<Rightarrow> py_exn + json option" where
  "recover_json loads ai_response =
     (case json_candidate ai_response of
        None \<Rightarrow> Inr None
      | Some json_str \<Rightarrow>
          (case loads json_str of
             Inr d \<Rightarrow> (case d of JObject entries \<Rightarrow> Inr (Some d) | _ \<Rightarrow> Inl AttributeError)
           | Inl JSONDecodeError \<Rightarrow>
               (case loads (fix_common_json_issues json_str) of
                  Inr d \<Rightarrow> Inr (Some d)
                | Inl JSONDecodeError \<Rightarrow> Inr None
                | Inl e \<Rightarrow> Inl e)
           | Inl e \<Rightarrow> Inl e))"

text \<open>The result of the recovery parser: the dict it returns.\<close>

record conversion =
  filename :: json
  content :: string
  dependencies :: json
  "notes" :: json

text \<open>
  The part of \<open>_parse_single_file_conversion\<close> after the strategies, for a
  \<open>json_data\<close> that is not \<open>None\<close>. A value that is not a dict is falsy or has no
  \<open>get\<close>, an empty dict is falsy, and a \<open>content\<close> that is not a string fails in
  \<open>len\<close>, in the slice or in \<open>strip\<close>: each of these ends in \<open>None\<close>.
  \<open>framework_dir\<close> stands for \<open>_get_framework_directory_structure\<close>, which only
  decides the file name.
\<close>

definition finish_conversion ::
    "(string \<Rightarrow> string \<Rightarrow> string \<Rightarrow> string) \<Rightarrow> json \<Rightarrow> string \<Rightarrow> string \<Rightarrow> string option
       \<Rightarrow> conversion option" where
  "finish_conversion framework_dir json_data target_language original_file_path target_framework =
     (case json_data of
        JObject entries \<Rightarrow>
          if entries = [] then None
          else (case (case map_of entries ''content'' of None \<Rightarrow> JString [] | Some v \<Rightarrow> v) of
                  JString c \<Rightarrow>
                    (let c' = (if contains c (bs # ''n'') then replace (bs # ''n'') [CHR 0x0A] c else c)
                     in if strip c' = [] then None
                        else Some \<lparr>filename =
                                     (case target_framework of
                                        None \<Rightarrow> (case map_of entries ''filename'' of
                                                   None \<Rightarrow> JString [] | Some v \<Rightarrow> v)
                                      | Some fw \<Rightarrow>
                                          if fw = [] then (case map_of entries ''filename'' of
                                                             None \<Rightarrow> JString [] | Some v \<Rightarrow> v)
                                          else JString (framework_dir target_language fw
                                                          original_file_path)),
                                   content = c',
                                   dependencies = (case map_of entries ''dependencies'' of
                                                     None \<Rightarrow> JObject [] | Some v \<Rightarrow> v),
                                   notes = (case map_of entries ''notes'' of
                                              None \<Rightarrow> JString [] | Some v \<Rightarrow> v)\<rparr>)
                | _ \<Rightarrow> None)
      | _ \<Rightarrow> None)"

text \<open>\<open>CodeConverter._parse_single_file_conversion\<close>.\<close>

definition parse_single_file_conversion ::
    "(string \<Rightarrow> py_exn + json) \<Rightarrow> (string \<Rightarrow> string \<Rightarrow> string \<Rightarrow> string) \<Rightarrow> string \<Rightarrow> string
       \<Rightarrow> string \<Rightarrow> string option \<Rightarrow> conversion option" where
  "parse_single_file_conversion loads framework_dir ai_response target_language
       original_file_path target_framework =
     (case recover_json loads ai_response of
        Inl e \<Rightarrow> None
      | Inr json_data \<Rightarrow>
          (case (case json_data of
                   None \<Rightarrow> extract_content_manually ai_response target_language original_file_path
                 | Some d \<Rightarrow> Some d) of
             None \<Rightarrow> None
           | Some d \<Rightarrow>
               finish_conversion framework_dir d target_language original_file_path
                 target_framework))"


section \<open>A model of \<open>json.loads\<close>\<close>

text \<open>
  The recovery parser is stated for any \<open>json.loads\<close>. To run it on concrete texts the
  parameter is instantiated with this model of the decoder of CPython's \<open>json\<close> module:
  strict strings (no raw control characters, the escapes of JSON), numbers kept as their
  text, \<open>null\<close>, \<open>true\<close>, \<open>false\<close>, \<open>NaN\<close>, \<open>Infinity\<close>, arrays and objects,
  a later value replacing an earlier one under the same key, no text after the value.
  A \<open>\uXXXX\<close> escape above \<open>00FF\<close> has no \<^typ>\<open>char\<close> and is rejected here. The
  fuel is twice the length of the text, which no decoding uses up, so the recursion limit
  of the interpreter is not modelled.
\<close>

definition json_ws :: "char \<Rightarrow> bool" where
  "json_ws c = (c \<in> set [CHR '' '', CHR 0x09, CHR 0x0A, CHR 0x0D])"

definition is_digit :: "char \<Rightarrow> bool" where
  "is_digit c = (48 \<le> (of_char c :: nat) \<and> (of_char c :: nat) \<le> 57)"

definition hex_val :: "char \<Rightarrow> nat option" where
  "hex_val c =
     (let n = (of_char c :: nat)
      in if 48 \<le> n \<and> n \<le> 57 then Some (n - 48)
         else if 65 \<le> n \<and> n \<le> 70 then Some (n - 55)
         else if 97 \<le> n \<and> n \<le> 102 then Some (n - 87)
         else None)"

definition json_escapes :: "(char \<times> char) list" where
  "json_escapes =
     [(dq, dq), (bs, bs), (CHR ''/'', CHR ''/''), (CHR ''b'', CHR 0x08), (CHR ''f'', CHR 0x0C),
      (CHR ''n'', CHR 0x0A), (CHR ''r'', CHR 0x0D), (CHR ''t'', CHR 0x09)]"

text \<open>The text of a string after its opening quote, decoded, and what follows the closing quote.\<close>

function scan_string :: "string \<Rightarrow> (string \<times> string) option" where
  "scan_string [] = None"
| "scan_string (c # cs) =
     (if c = dq then Some ([], cs)
      else if c = bs then
        (case cs of
           [] \<Rightarrow> None
         | e # rest \<Rightarrow>
             if e = CHR ''u'' then
               (case map hex_val (take 4 rest) of
                  [Some h1, Some h2, Some h3, Some h4] \<Rightarrow>
                    if h1 = 0 \<and> h2 = 0
                    then map_option (\<lambda>(t, r). (char_of (16 * h3 + h4) # t, r))
                           (scan_string (drop 4 rest))
                    else None
                | _ \<Rightarrow> None)
             else (case map_of json_escapes e of
                     None \<Rightarrow> None
                   | Some x \<Rightarrow> map_option (\<lambda>(t, r). (x # t, r)) (scan_string rest)))
      else if (of_char c :: nat) < 32 then None
      else map_option (\<lambda>(t, r). (c # t, r)) (scan_string cs))"
  by pat_completeness auto
termination
  by (relation "measure length") auto

text \<open>
  \<open>-?(0|[1-9]\d*)(\.\d+)?([eE][-+]?\d+)?\<close>: the text of the number and what follows.
\<close>

definition scan_digits :: "string \<Rightarrow> (string \<times> string) option" where
  "scan_digits s =
     (if takeWhile is_digit s = [] then None
      else Some (takeWhile is_digit s, dropWhile is_digit s))"

definition scan_number :: "string \<Rightarrow> (string \<times> string) option" where
  "scan_number s =
     (let (sign, s1) = (case s of c # cs \<Rightarrow> if c = CHR ''-'' then (''-'', cs) else ([], s) | [] \<Rightarrow> ([], s));
          int_part = (case s1 of
                        [] \<Rightarrow> None
                      | c # cs \<Rightarrow> if c = CHR ''0'' then Some (''0'', cs)
                                  else if is_digit c then scan_digits s1
                                  else None)
      in case int_part of
           None \<Rightarrow> None
         | Some (ds, s2) \<Rightarrow>
             (let (frac, s3) =
                    (case s2 of
                       c # cs \<Rightarrow>
                         if c = CHR ''.'' then
                           (case scan_digits cs of
                              None \<Rightarrow> ([], s2)
                            | Some (fs, r) \<Rightarrow> (CHR ''.'' # fs, r))
                         else ([], s2)
                     | [] \<Rightarrow> ([], s2));
                  (expo, s4) =
                    (case s3 of
                       c # cs \<Rightarrow>
                         if c = CHR ''e'' \<or> c = CHR ''E'' then
                           (let (es, cs') = (case cs of
                                               d # ds' \<Rightarrow> if d = CHR ''+'' \<or> d = CHR ''-''
                                                          then ([d], ds') else ([], cs)
                                             | [] \<Rightarrow> ([], cs))
                            in case scan_digits cs' of
                                 None \<Rightarrow> ([], s3)
                               | Some (xs, r) \<Rightarrow> (c # es @ xs, r))
                         else ([], s3)
                     | [] \<Rightarrow> ([], s3))
              in Some (sign @ ds @ frac @ expo, s4)))"

text \<open>\<open>d[key] = value\<close> on the association list of a dict.\<close>

fun dict_set :: "string \<Rightarrow> json \<Rightarrow> (string \<times> json) list \<Rightarrow> (string \<times> json) list" where
  "dict_set k v [] = [(k, v)]"
| "dict_set k v ((k', v') # kvs) =
     (if k = k' then (k, v) # kvs else (k', v') # dict_set k v kvs)"

fun json_value :: "nat \<Rightarrow> string \<Rightarrow> (json \<times> string) option"
  and json_members :: "nat \<Rightarrow> (string \<times> json) list \<Rightarrow> string \<Rightarrow> (json \<times> string) option"
  and json_elements :: "nat \<Rightarrow> json list \<Rightarrow> string \<Rightarrow> (json \<times> string) option" where
  "json_value 0 s = None"
| "json_value (Suc n) s =
     (case s of
        [] \<Rightarrow> None
      | c # cs \<Rightarrow>
          if c = dq then map_option (\<lambda>(t, r). (JString t, r)) (scan_string cs)
          else if c = CHR ''{'' then
            (case dropWhile json_ws cs of
               [] \<Rightarrow> None
             | d # r \<Rightarrow> if d = CHR ''}'' then Some (JObject [], r)
                        else json_members n [] (d # r))
          else if c = CHR ''['' then
            (case dropWhile json_ws cs of
               [] \<Rightarrow> None
             | d # r \<Rightarrow> if d = CHR '']'' then Some (JArray [], r)
                        else json_elements n [] (d # r))
          else if prefix ''null'' s then Some (JNull, drop 4 s)
          else if prefix ''true'' s then Some (JBool True, drop 4 s)
          else if prefix ''false'' s then Some (JBool False, drop 5 s)
          else (case scan_number s of
                  Some (lexeme, r) \<Rightarrow> Some (JNumber lexeme, r)
                | None \<Rightarrow>
                    if prefix ''NaN'' s then Some (JNumber ''NaN'', drop 3 s)
                    else if prefix ''Infinity'' s then Some (JNumber ''Infinity'', drop 8 s)
                    else if prefix ''-Infinity'' s then Some (JNumber ''-Infinity'', drop 9 s)
                    else None))"
| "json_members 0 acc s = None"
| "json_members (Suc n) acc s =
     (case s of
        [] \<Rightarrow> None
      | c # cs \<Rightarrow>
          if c = dq then
            (case scan_string cs of
               None \<Rightarrow> None
             | Some (key, r1) \<Rightarrow>
                 (case dropWhile json_ws r1 of
                    [] \<Rightarrow> None
                  | d # r2 \<Rightarrow>
                      if d = CHR '':'' then
                        (case json_value n (dropWhile json_ws r2) of
                           None \<Rightarrow> None
                         | Some (v, r3) \<Rightarrow>
                             (case dropWhile json_ws r3 of
                                [] \<Rightarrow> None
                              | e # r4 \<Rightarrow>
                                  if e = CHR ''}'' then Some (JObject (dict_set key v acc), r4)
                                  else if e = CHR '','' then
                                    json_members n (dict_set key v acc) (dropWhile json_ws r4)
                                  else None))
                      else None))
          else None)"
| "json_elements 0 acc s = None"
| "json_elements (Suc n) acc s =
     (case json_value n s of
        None \<Rightarrow> None
      | Some (v, r) \<Rightarrow>
          (case dropWhile json_ws r of
             [] \<Rightarrow> None
           | e # r' \<Rightarrow>
               if e = CHR '']'' then Some (JArray (acc @ [v]), r')
               else if e = CHR '','' then json_elements n (acc @ [v]) (dropWhile json_ws r')
               else None))"

definition json_loads :: "string \<Rightarrow> py_exn + json" where
  "json_loads s =
     (case json_value (2 * length s + 2) (dropWhile json_ws s) of
        None \<Rightarrow> Inl JSONDecodeError
      | Some (v, r) \<Rightarrow> if dropWhile json_ws r = [] then Inr v else Inl JSONDecodeError)"


section \<open>Properties of the skip filter\<close>

lemma should_skip_file_iff:
  "should_skip_file f pats \<longleftrightarrow>
     (\<exists>p \<in> set pats.
        if prefix ''*.'' p then suffix (drop 1 p) f
        else if prefix ''*'' p then sublist (drop 1 p) f
        else sublist p f)"
  by (induction pats) (auto simp: startswith_def endswith_def contains_def)

lemma skip_patterns_plain:
  "p \<in> {''build'', ''out'', ''bin''} \<Longrightarrow> p \<in> set skip_patterns \<and> \<not> prefix ''*'' p"
  by (auto simp: skip_patterns_def)

text \<open>
  C10. A candidate path is skipped exactly when some pattern hits it, where a pattern not
  beginning with \<open>*\<close> hits when it occurs as a contiguous substring anywhere in the whole
  path string, and a \<open>*.ext\<close> pattern hits when the whole path ends with \<open>.ext\<close>.
  Consequently every path that contains \<open>bin\<close>, \<open>out\<close> or \<open>build\<close> anywhere, also
  inside a longer file or directory name such as \<open>about\<close>, is excluded from discovery.
\<close>

theorem should_skip_file_raw_substring:
  "(should_skip_file f pats \<longleftrightarrow>
      (\<exists>p \<in> set pats.
         if prefix ''*.'' p then suffix (drop 1 p) f
         else if prefix ''*'' p then sublist (drop 1 p) f
         else sublist p f))
   \<and> (p \<in> set pats \<and> \<not> prefix ''*'' p \<and> sublist p f \<longrightarrow> should_skip_file f pats)
   \<and> (sublist ''bin'' f \<or> sublist ''out'' f \<or> sublist ''build'' f \<longrightarrow> \<not> discovery_keeps f)"
proof (intro conjI)
  show iff: "should_skip_file f pats \<longleftrightarrow>
      (\<exists>p \<in> set pats.
         if prefix ''*.'' p then suffix (drop 1 p) f
         else if prefix ''*'' p then sublist (drop 1 p) f
         else sublist p f)"
    by (rule should_skip_file_iff)
  show "p \<in> set pats \<and> \<not> prefix ''*'' p \<and> sublist p f \<longrightarrow> should_skip_file f pats"
  proof
    assume h: "p \<in> set pats \<and> \<not> prefix ''*'' p \<and> sublist p f"
    then have "\<not> prefix ''*.'' p"
      by (auto simp: prefix_def)
    with h show "should_skip_file f pats"
      unfolding should_skip_file_iff by (intro bexI [of _ p]) auto
  qed
  show "sublist ''bin'' f \<or> sublist ''out'' f \<or> sublist ''build'' f \<longrightarrow> \<not> discovery_keeps f"
  proof
    assume "sublist ''bin'' f \<or> sublist ''out'' f \<or> sublist ''build'' f"
    then obtain q where q: "q \<in> {''build'', ''out'', ''bin''}" "sublist q f"
      by auto
    from skip_patterns_plain [OF q(1)] have m: "q \<in> set skip_patterns" "\<not> prefix ''*'' q"
      by auto
    then have "\<not> prefix ''*.'' q"
      by (auto simp: prefix_def)
    with m q(2) have "should_skip_file f skip_patterns"
      unfolding should_skip_file_iff by (intro bexI [of _ q]) auto
    then show "\<not> discovery_keeps f"
      by (simp add: discovery_keeps_def)
  qed
qed

theorem should_skip_file_raw_substring_witness:
  "''out'' \<in> set skip_patterns \<and> \<not> prefix ''*'' ''out''
   \<and> sublist ''out'' ''/srv/app/src/about.py''
   \<and> should_skip_file ''/srv/app/src/about.py'' skip_patterns
   \<and> \<not> discovery_keeps ''/srv/app/src/about.py''"
proof -
  have a: "''out'' \<in> set skip_patterns"
    by (simp add: skip_patterns_def)
  have b: "\<not> prefix ''*'' ''out''"
    by simp
  have c: "sublist ''out'' ''/srv/app/src/about.py''"
    by code_simp
  from should_skip_file_raw_substring
         [of "''/srv/app/src/about.py''" skip_patterns "''out''"] a b c
  show ?thesis by blast
qed


section \<open>Properties of language detection\<close>

text \<open>
  C9. The claim puts the exact file-name match before the extension match. The chain tests
  the extensions first, so for \<open>package.json\<close> the \<open>.json\<close> test answers \<open>json\<close> and
  the later branch that lists \<open>package.json\<close> for \<open>npm\<close> is never reached. The name
  tests compare the whole path, so \<open>go.mod\<close> under a directory falls through to the
  caller's default, while the bare name \<open>go.mod\<close> is recognised.
\<close>

theorem detect_language_extension_shadows_filename:
  "detect_language_from_file ''package.json'' ''javascript'' = ''json''
   \<and> detect_language_from_file ''/srv/app/go.mod'' ''go'' = ''go''
   \<and> detect_language_from_file ''go.mod'' ''go'' = ''go_mod''"
  by code_simp


section \<open>Properties of the brace-balance scan\<close>

lemma find_open_Some:
  "find_open ls i bc = (bc', Some e) \<Longrightarrow> i < e \<and> e \<le> i + length ls \<and> 0 < bc'"
  by (induction ls arbitrary: i bc) (fastforce simp: Let_def split: if_splits)+

lemma find_open_None_total:
  "find_open ls i bc = (bc', None) \<Longrightarrow> ls \<noteq> [] \<Longrightarrow> bc' \<le> 0"
proof (induction ls arbitrary: i bc)
  case Nil
  then show ?case by simp
next
  case (Cons l ls)
  then show ?case
    by (cases ls) (auto simp: Let_def split: if_splits)
qed

lemma find_open_None_first:
  "find_open (l # ls) i bc = (bc', None) \<Longrightarrow> bc + brace_delta l \<le> 0"
  by (auto simp: Let_def split: if_splits)

lemma find_close_Some:
  "find_close ls i bc = (bc', Some e) \<Longrightarrow> i < e \<and> e \<le> i + length ls"
  by (induction ls arbitrary: i bc) (fastforce simp: Let_def split: if_splits)+

lemma code_block_end_bounds:
  assumes "start_idx < length lines"
  shows "start_idx < code_block_end lines start_idx \<and> code_block_end lines start_idx \<le> length lines"
proof -
  obtain bc opened where fo: "find_open (drop start_idx lines) start_idx 0 = (bc, opened)"
    by (cases "find_open (drop start_idx lines) start_idx 0")
  show ?thesis
  proof (cases opened)
    case None
    from assms obtain l rest where dr: "drop start_idx lines = l # rest"
      by (cases "drop start_idx lines") auto
    from fo None dr have "bc \<le> 0"
      using find_open_None_total [of "l # rest" start_idx 0 bc] by simp
    moreover from fo None dr have "brace_delta l \<le> 0"
      using find_open_None_first [of l rest start_idx 0 bc] by simp
    ultimately have "find_close (l # rest) start_idx bc = (bc + brace_delta l, Some (start_idx + 1))"
      by (simp add: Let_def)
    with fo None dr assms show ?thesis
      by (simp add: code_block_end_def)
  next
    case (Some e)
    with fo have e: "start_idx < e" "e \<le> start_idx + length (drop start_idx lines)"
      using find_open_Some [of "drop start_idx lines" start_idx 0 bc e] by auto
    then have e_le: "e \<le> length lines"
      using assms by simp
    obtain bc2 closed where fc: "find_close (drop e lines) e bc = (bc2, closed)"
      by (cases "find_close (drop e lines) e bc")
    show ?thesis
    proof (cases closed)
      case None
      with fo Some fc e e_le show ?thesis
        by (simp add: code_block_end_def)
    next
      case (Some e2)
      with fc have "e < e2" "e2 \<le> e + length (drop e lines)"
        using find_close_Some [of "drop e lines" e bc bc2 e2] by auto
      with fo \<open>opened = Some e\<close> fc Some e e_le show ?thesis
        by (simp add: code_block_end_def)
    qed
  qed
qed


text \<open>
  C6. For every list of lines and every start line between 1 and the number of lines, the
  brace-balance scan (a total function, so it terminates) returns a span that is not
  empty, begins with the declaration line and ends no later than the last line of the
  file: \<open>start_idx < end_idx \<le> len(lines)\<close>, whatever the braces are, so also when no
  opening brace is found and when an opened brace is never closed.
\<close>

theorem extract_code_block_bounded:
  assumes "1 \<le> start_line" and "start_line \<le> length lines"
  shows "code_block_span lines start_line \<noteq> []
       \<and> hd (code_block_span lines start_line) = lines ! (start_line - 1)
       \<and> length (code_block_span lines start_line) \<le> length lines - (start_line - 1)
       \<and> start_line - 1 < code_block_end lines (start_line - 1)
       \<and> code_block_end lines (start_line - 1) \<le> length lines
       \<and> extract_code_block lines start_line
           = join nl (slice lines (start_line - 1) (code_block_end lines (start_line - 1)))"
proof -
  let ?s = "start_line - 1"
  let ?e = "code_block_end lines ?s"
  from assms have lt: "?s < length lines" by simp
  from code_block_end_bounds [OF lt] have b: "?s < ?e" "?e \<le> length lines" by auto
  have span: "code_block_span lines start_line = drop ?s (take ?e lines)"
    by (simp add: code_block_span_def slice_def)
  from b have len: "length (code_block_span lines start_line) = ?e - ?s"
    by (simp add: span)
  from b len have ne: "code_block_span lines start_line \<noteq> []"
    by (metis length_0_conv zero_less_diff less_numeral_extra(3))
  from b have "hd (drop ?s (take ?e lines)) = take ?e lines ! ?s"
    by (simp add: hd_drop_conv_nth)
  with b have hd: "hd (code_block_span lines start_line) = lines ! ?s"
    by (simp add: span)
  from len b have le: "length (code_block_span lines start_line) \<le> length lines - ?s"
    by (simp add: diff_le_mono)
  have ex: "extract_code_block lines start_line = join nl (slice lines ?s ?e)"
    by (simp add: extract_code_block_def code_block_span_def)
  from ne hd le b ex show ?thesis
    by blast
qed

theorem extract_code_block_bounded_witness:
  "(1::nat) \<le> 1 \<and> 1 \<le> length [''void f();'', ''int g() {'', ''  return 1;'']
   \<and> code_block_span [''void f();'', ''int g() {'', ''  return 1;''] 1 \<noteq> []
   \<and> hd (code_block_span [''void f();'', ''int g() {'', ''  return 1;''] 1) = ''void f();''
   \<and> length (code_block_span [''void f();'', ''int g() {'', ''  return 1;''] 1) \<le> 3"
proof -
  have a: "(1::nat) \<le> 1" "(1::nat) \<le> length [''void f();'', ''int g() {'', ''  return 1;'']"
    by simp_all
  from extract_code_block_bounded [OF a] show ?thesis
    by simp
qed

lemma find_open_first:
  assumes "n < length ls"
    and "\<forall>m<n. bc + sum_list (map brace_delta (take (Suc m) ls)) \<le> 0"
    and "0 < bc + sum_list (map brace_delta (take (Suc n) ls))"
  shows "find_open ls idx bc
           = (bc + sum_list (map brace_delta (take (Suc n) ls)), Some (idx + n + 1))"
  using assms
proof (induction ls arbitrary: n idx bc)
  case Nil
  then show ?case by simp
next
  case (Cons l ls)
  show ?case
  proof (cases n)
    case 0
    with Cons.prems show ?thesis by (simp add: Let_def)
  next
    case (Suc n')
    from Cons.prems(2) Suc have first: "bc + brace_delta l \<le> 0"
      by (auto dest: spec [of _ 0])
    have "\<forall>m<n'. (bc + brace_delta l) + sum_list (map brace_delta (take (Suc m) ls)) \<le> 0"
    proof (intro allI impI)
      fix m assume "m < n'"
      then have "Suc m < n" using Suc by simp
      with Cons.prems(2) have "bc + sum_list (map brace_delta (take (Suc (Suc m)) (l # ls))) \<le> 0"
        by blast
      then show "(bc + brace_delta l) + sum_list (map brace_delta (take (Suc m) ls)) \<le> 0"
        by (simp add: add.assoc)
    qed
    moreover from Cons.prems(3) Suc
    have "0 < (bc + brace_delta l) + sum_list (map brace_delta (take (Suc n') ls))"
      by (simp add: add.assoc)
    moreover from Cons.prems(1) Suc have "n' < length ls" by simp
    ultimately have "find_open ls (idx + 1) (bc + brace_delta l)
           = ((bc + brace_delta l) + sum_list (map brace_delta (take (Suc n') ls)),
              Some (idx + 1 + n' + 1))"
      by (rule Cons.IH [rotated -1, rotated -1])
    with first Suc show ?thesis
      by (simp add: Let_def add.assoc)
  qed
qed

lemma find_close_first:
  assumes "n < length ls"
    and "\<forall>m<n. 0 < bc + sum_list (map brace_delta (take (Suc m) ls))"
    and "bc + sum_list (map brace_delta (take (Suc n) ls)) \<le> 0"
  shows "find_close ls idx bc
           = (bc + sum_list (map brace_delta (take (Suc n) ls)), Some (idx + n + 1))"
  using assms
proof (induction ls arbitrary: n idx bc)
  case Nil
  then show ?case by simp
next
  case (Cons l ls)
  show ?case
  proof (cases n)
    case 0
    with Cons.prems show ?thesis by (simp add: Let_def)
  next
    case (Suc n')
    from Cons.prems(2) Suc have first: "0 < bc + brace_delta l"
      by (auto dest: spec [of _ 0])
    have "\<forall>m<n'. 0 < (bc + brace_delta l) + sum_list (map brace_delta (take (Suc m) ls))"
    proof (intro allI impI)
      fix m assume "m < n'"
      then have "Suc m < n" using Suc by simp
      with Cons.prems(2) have "0 < bc + sum_list (map brace_delta (take (Suc (Suc m)) (l # ls)))"
        by blast
      then show "0 < (bc + brace_delta l) + sum_list (map brace_delta (take (Suc m) ls))"
        by (simp add: add.assoc)
    qed
    moreover from Cons.prems(3) Suc
    have "(bc + brace_delta l) + sum_list (map brace_delta (take (Suc n') ls)) \<le> 0"
      by (simp add: add.assoc)
    moreover from Cons.prems(1) Suc have "n' < length ls" by simp
    ultimately have "find_close ls (idx + 1) (bc + brace_delta l)
           = ((bc + brace_delta l) + sum_list (map brace_delta (take (Suc n') ls)),
              Some (idx + 1 + n' + 1))"
      by (rule Cons.IH [rotated -1, rotated -1])
    with first Suc show ?thesis
      by (simp add: Let_def add.assoc)
  qed
qed

lemma drop_take_split:
  assumes "a \<le> b"
  shows "drop a ys = drop a (take b ys) @ drop b ys"
proof (cases "b \<le> length ys")
  case True
  then have len: "length (take b ys) = b"
    by simp
  have "drop a ys = drop a (take b ys @ drop b ys)"
    by simp
  also have "\<dots> = drop a (take b ys) @ drop (a - b) (drop b ys)"
    unfolding drop_append len ..
  also have "\<dots> = drop a (take b ys) @ drop b ys"
    using assms by simp
  finally show ?thesis .
next
  case False
  then show ?thesis by simp
qed

lemma slice_split:
  assumes "a \<le> b" and "b \<le> c"
  shows "slice xs a c = slice xs a b @ slice xs b c"
proof -
  have "drop a (take c xs) = drop a (take b (take c xs)) @ drop b (take c xs)"
    using assms(1) by (rule drop_take_split)
  moreover have "take b (take c xs) = take b xs"
    using assms(2) by (simp add: min_def)
  ultimately show ?thesis
    by (simp add: slice_def)
qed

text \<open>
  The balanced case: when the running total of \<open>opens - closes\<close> from the declaration
  line first becomes positive on line \<open>i\<close> and first returns to zero or below on a later
  line \<open>j\<close>, the span ends with line \<open>j\<close> (indices from 0, \<open>end_idx = j + 1\<close>).
\<close>

lemma extract_code_block_balanced:
  fixes lines :: "string list"
  defines "run \<equiv> \<lambda>s k. sum_list (map brace_delta (slice lines s (Suc k)))"
  assumes "s \<le> i" and "i < j" and "j < length lines"
    and "\<forall>k. s \<le> k \<and> k < i \<longrightarrow> run s k \<le> 0"
    and "0 < run s i"
    and "\<forall>k. i < k \<and> k < j \<longrightarrow> 0 < run s k"
    and "run s j \<le> 0"
  shows "code_block_end lines s = j + 1"
proof -
  have tk: "run s k = sum_list (map brace_delta (take (Suc (k - s)) (drop s lines)))" if "s \<le> k" for k
    using that by (simp add: run_def slice_def drop_take Suc_diff_le)
  have open1: "find_open (drop s lines) s 0 = (run s i, Some (i + 1))"
  proof -
    have "find_open (drop s lines) s 0
            = (0 + sum_list (map brace_delta (take (Suc (i - s)) (drop s lines))), Some (s + (i - s) + 1))"
    proof (rule find_open_first)
      show "i - s < length (drop s lines)"
        using assms(2-4) by simp
      show "\<forall>m<i - s. 0 + sum_list (map brace_delta (take (Suc m) (drop s lines))) \<le> 0"
      proof (intro allI impI)
        fix m assume "m < i - s"
        then have "s \<le> s + m \<and> s + m < i" by simp
        with assms(5) have "run s (s + m) \<le> 0" by blast
        then show "0 + sum_list (map brace_delta (take (Suc m) (drop s lines))) \<le> 0"
          by (simp add: tk)
      qed
      show "0 < 0 + sum_list (map brace_delta (take (Suc (i - s)) (drop s lines)))"
        using assms(6) assms(2) by (simp add: tk)
    qed
    then show ?thesis
      using assms(2) by (simp add: tk)
  qed
  have split: "run s k = run s i + sum_list (map brace_delta (take (Suc (k - Suc i)) (drop (Suc i) lines)))"
    if "i < k" for k
  proof -
    from that assms(2) have "slice lines s (Suc k) = slice lines s (Suc i) @ slice lines (Suc i) (Suc k)"
      by (intro slice_split) simp_all
    moreover have "Suc k - Suc i = Suc (k - Suc i)"
      using that by simp
    then have "slice lines (Suc i) (Suc k) = take (Suc (k - Suc i)) (drop (Suc i) lines)"
      unfolding slice_def drop_take by simp
    ultimately show ?thesis
      by (simp add: run_def)
  qed
  have close1: "find_close (drop (i + 1) lines) (i + 1) (run s i) = (run s j, Some (j + 1))"
  proof -
    have "find_close (drop (Suc i) lines) (Suc i) (run s i)
            = (run s i + sum_list (map brace_delta (take (Suc (j - Suc i)) (drop (Suc i) lines))),
               Some (Suc i + (j - Suc i) + 1))"
    proof (rule find_close_first)
      show "j - Suc i < length (drop (Suc i) lines)"
        using assms(3,4) by simp
      show "\<forall>m<j - Suc i. 0 < run s i + sum_list (map brace_delta (take (Suc m) (drop (Suc i) lines)))"
      proof (intro allI impI)
        fix m assume "m < j - Suc i"
        then have k: "i < Suc i + m \<and> Suc i + m < j" by simp
        with assms(7) have "0 < run s (Suc i + m)" by blast
        with k show "0 < run s i + sum_list (map brace_delta (take (Suc m) (drop (Suc i) lines)))"
          using split [of "Suc i + m"] by simp
      qed
      show "run s i + sum_list (map brace_delta (take (Suc (j - Suc i)) (drop (Suc i) lines))) \<le> 0"
        using assms(8) split [OF assms(3)] by simp
    qed
    then show ?thesis
      using assms(3) split [OF assms(3)] by simp
  qed
  show ?thesis
    using open1 close1 by (simp add: code_block_end_def)
qed

text \<open>
  The example of the specification: \<open>public void f() {\<close>, \<open>x();\<close>, \<open>}\<close> at
  line 3 of a file gives the three-line span that starts at line 3.
\<close>

lemma extract_code_block_three_line_example:
  "code_block_span [''package p;'', [], ''public void f() {'', ''  x();'', ''}'', ''int y;''] 3
     = [''public void f() {'', ''  x();'', ''}'']"
  by code_simp

text \<open>
  C5. A declaration line that opens and closes its block (\<open>void f() { x(); }\<close>) adds
  zero to the running total, so the first loop does not stop on it: it goes on to the next
  line that makes the total positive, and the span returned for the one-line body runs
  through the end of the following block.
\<close>

theorem extract_code_block_one_line_body_overruns:
  "code_block_span [''void f() { x(); }'', ''void g() {'', ''  y();'', ''}''] 1
     = [''void f() { x(); }'', ''void g() {'', ''  y();'', ''}'']
   \<and> extract_code_block [''void f() { x(); }'', ''void g() {'', ''  y();'', ''}''] 1
     \<noteq> ''void f() { x(); }''"
  by code_simp


section \<open>Properties of the bounded statement scan\<close>

lemma join_Cons:
  "join sep (x # xs) = x @ (if xs = [] then [] else sep @ join sep xs)"
  by (cases xs) simp_all

lemma append_until_semicolon_join:
  "append_until_semicolon line rest =
     join nl (line # takeWhile (\<lambda>l. \<not> ends_with_semicolon l) rest
                   @ take 1 (dropWhile (\<lambda>l. \<not> ends_with_semicolon l) rest))"
proof (induction rest arbitrary: line)
  case Nil
  then show ?case by simp
next
  case (Cons l rest)
  show ?case
  proof (cases "ends_with_semicolon l")
    case True
    then show ?thesis by (simp add: Let_def)
  next
    case False
    then show ?thesis
      by (simp add: Let_def Cons.IH join_Cons)
  qed
qed

lemma lookahead_window:
  "slice lines (s + 1) (min (s + 5) (length lines)) = take 4 (drop (s + 1) lines)"
proof -
  have "slice lines (s + 1) (min (s + 5) (length lines))
          = take (min (s + 5) (length lines) - (s + 1)) (drop (s + 1) lines)"
    by (simp add: slice_def drop_take)
  also have "\<dots> = take 4 (drop (s + 1) lines)"
    by (cases "s + 5 \<le> length lines") (simp_all add: min_def)
  finally show ?thesis .
qed

lemma dropWhile_snoc_keep:
  "\<not> P c \<Longrightarrow> dropWhile P (xs @ [c]) = dropWhile P xs @ [c]"
  by (induction xs) simp_all

lemma endswith_strip:
  assumes "endswith line '';''"
  shows "ends_with_semicolon line"
proof -
  have ns: "\<not> is_space CHR '';''"
    by (simp add: is_space_def)
  from assms obtain zs where line: "line = zs @ '';''"
    by (auto simp: endswith_def suffix_def)
  have "strip line = dropWhile is_space zs @ '';''"
    by (simp add: line strip_def lstrip_def rstrip_def dropWhile_snoc_keep ns)
  then show ?thesis
    by (simp add: ends_with_semicolon_def endswith_def suffix_def)
qed


text \<open>
  C8, as the claim states it, fails: the scan does not append up to five lines. After a
  declaration line that does not end with \<open>;\<close> it looks at the four lines that
  follow and no further, so a statement whose \<open>;\<close> is on the fifth following line is
  returned cut off after the fourth.
\<close>

theorem statement_scan_stops_after_four_lines:
  "extract_variable_declaration [''x ='', ''1'', ''2'', ''3'', ''4'', ''5;''] 1
     = ''x ='' @ nl @ ''1'' @ nl @ ''2'' @ nl @ ''3'' @ nl @ ''4''
   \<and> extract_variable_declaration [''x ='', ''1'', ''2'', ''3'', ''4'', ''5;''] 1
     \<noteq> join nl [''x ='', ''1'', ''2'', ''3'', ''4'', ''5;'']"
  by code_simp

text \<open>
  C8, amended. For a start line between 1 and the number of lines: when the declaration
  line ends with \<open>;\<close> (surrounding whitespace aside, as \<open>strip\<close> removes it) the
  scan returns that line alone. Otherwise it joins the declaration line with the following
  lines of the lookahead window, which is five lines long counting the declaration line (at
  most four following lines, fewer at the end of the file), up to and including the first of
  them that ends with \<open>;\<close>, and with all of them when none does.
\<close>

theorem extract_variable_declaration_window:
  assumes "1 \<le> start_line" and "start_line \<le> length lines"
  shows "let line = lines ! (start_line - 1);
             window = take 4 (drop start_line lines);
             open_stmt = (\<lambda>l. \<not> ends_with_semicolon l)
         in (endswith line '';'' \<longrightarrow> extract_variable_declaration lines start_line = line)
          \<and> (ends_with_semicolon line \<longrightarrow> extract_variable_declaration lines start_line = line)
          \<and> (\<not> ends_with_semicolon line \<longrightarrow>
                extract_variable_declaration lines start_line
                  = join nl (line # takeWhile open_stmt window @ take 1 (dropWhile open_stmt window)))"
proof -
  from assms have s: "start_line - 1 + 1 = start_line" "\<not> length lines \<le> start_line - 1"
    by auto
  show ?thesis
    using s lookahead_window [of lines "start_line - 1"] endswith_strip [of "lines ! (start_line - 1)"]
    by (auto simp: Let_def extract_variable_declaration_def append_until_semicolon_join)
qed

theorem extract_variable_declaration_window_witness:
  "extract_variable_declaration [''int x ='', ''  1 +'', ''  2;  '', ''int y;''] 1
     = ''int x ='' @ nl @ ''  1 +'' @ nl @ ''  2;  ''
   \<and> extract_variable_declaration [''int y;''] 1 = ''int y;''"
proof -
  have a: "(1::nat) \<le> 1" "(1::nat) \<le> length [''int x ='', ''  1 +'', ''  2;  '', ''int y;'']"
          "(1::nat) \<le> length [''int y;'']"
    by simp_all
  have e1: "\<not> ends_with_semicolon ''int x =''" by code_simp
  have e2: "\<not> ends_with_semicolon ''  1 +''" by code_simp
  have e3: "ends_with_semicolon ''  2;  ''" by code_simp
  have e4: "endswith ''int y;'' '';''" by code_simp
  from extract_variable_declaration_window [OF a(1) a(2)] e1 e2 e3
  have "extract_variable_declaration [''int x ='', ''  1 +'', ''  2;  '', ''int y;''] 1
     = ''int x ='' @ nl @ ''  1 +'' @ nl @ ''  2;  ''"
    by (simp add: Let_def)
  moreover from extract_variable_declaration_window [OF a(1) a(3)] e4
  have "extract_variable_declaration [''int y;''] 1 = ''int y;''"
    by (simp add: Let_def)
  ultimately show ?thesis by simp
qed


section \<open>Properties of the extractors\<close>

lemma extractor_keeps_text:
  "pred_option (\<lambda>r. full_source_code r = src) (extractor tag body path src)"
  by (auto simp: extractor_def split: sum.splits)

lemma parse_json_file_keeps_text:
  "pred_option (\<lambda>r. full_source_code r = src) (parse_json_file loads path src)"
  by (auto simp: parse_json_file_def Let_def split: sum.splits py_exn.splits option.splits)

lemma parse_generic_file_keeps_text:
  "pred_option (\<lambda>r. full_source_code r = src) (parse_generic_file path src lang)"
  by (simp add: parse_generic_file_def)

lemma extract_by_language_keeps_text:
  "pred_option (\<lambda>r. full_source_code r = src) (extract_by_language bodies loads lang path src)"
  unfolding extract_by_language_def parse_python_file_def
  by (simp only: extractor_keeps_text parse_json_file_keeps_text parse_generic_file_keeps_text
        if_split [where P = "pred_option (\<lambda>r. full_source_code r = src)"] simp_thms)

lemma parse_file_keeps_text:
  "pred_option (\<lambda>r. full_source_code r = src)
     (parse_file bodies loads file_size (Inr src) path lang)"
  by (simp add: parse_file_def extract_by_language_keeps_text split: sum.splits)


text \<open>
  C1. Whenever an extractor returns a record, whatever the language and whatever its
  analysis found, the record's \<open>full_source_code\<close> is the text the extractor was given,
  unchanged. This holds for the analysis-based extractors, the JSON extractor, the generic
  extractor, the dispatch of \<open>parse_file\<close> over them and \<open>parse_file\<close> itself (where
  the text is what reading the file returned).
\<close>

theorem full_source_code_verbatim:
  "(extractor tag body path src = Some r \<longrightarrow> full_source_code r = src)
   \<and> (parse_json_file loads path src = Some r \<longrightarrow> full_source_code r = src)
   \<and> (parse_generic_file path src lang = Some r \<longrightarrow> full_source_code r = src)
   \<and> (extract_by_language bodies loads lang path src = Some r \<longrightarrow> full_source_code r = src)
   \<and> (parse_file bodies loads file_size (Inr src) path lang = Some r \<longrightarrow> full_source_code r = src)"
  using extractor_keeps_text [of src tag body path]
        parse_json_file_keeps_text [of src loads path]
        parse_generic_file_keeps_text [of src path lang]
        extract_by_language_keeps_text [of src bodies loads lang path]
        parse_file_keeps_text [of src bodies loads file_size path lang]
  by (intro conjI impI) simp_all

theorem full_source_code_verbatim_witness:
  "map_option full_source_code
     (extract_by_language (\<lambda>_ _ _. Inl SyntaxError) (\<lambda>_. Inl JSONDecodeError)
        ''kotlin'' ''Main.kt'' ''val x = 1\<newline>\<newline>  fun f()'')
     = Some ''val x = 1\<newline>\<newline>  fun f()''
   \<and> map_option full_source_code
     (parse_json_file (\<lambda>_. Inl JSONDecodeError) ''a.json'' ''{not json'') = Some ''{not json''"
proof -
  let ?b = "\<lambda>_ _ _. Inl SyntaxError :: py_exn + found"
  let ?l = "\<lambda>_. Inl JSONDecodeError :: py_exn + json"
  obtain r where r: "extract_by_language ?b ?l ''kotlin'' ''Main.kt'' ''val x = 1\<newline>\<newline>  fun f()'' = Some r"
    by (simp add: extract_by_language_def parse_generic_file_def)
  obtain q where q: "parse_json_file ?l ''a.json'' ''{not json'' = Some q"
    by (simp add: parse_json_file_def)
  from full_source_code_verbatim
         [where r = r and src = "''val x = 1\<newline>\<newline>  fun f()''" and loads = ?l
            and path = "''Main.kt''" and lang = "''kotlin''" and bodies = ?b] r
  have "full_source_code r = ''val x = 1\<newline>\<newline>  fun f()''" by blast
  moreover
  from full_source_code_verbatim
         [where r = q and src = "''{not json''" and loads = ?l and path = "''a.json''"] q
  have "full_source_code q = ''{not json''" by blast
  ultimately show ?thesis using r q by simp
qed












section \<open>Properties of the matcher\<close>










section \<open>Properties of the recovery parser\<close>






lemma replace_absent:
  "\<not> sublist old s \<Longrightarrow> replace old new s = s"
proof (induction s)
  case Nil
  then show ?case
    by (simp add: replace.simps [of old new "[]"])
next
  case (Cons x xs)
  from Cons.prems have np: "\<not> prefix old (x # xs)" and ns: "\<not> sublist old xs"
    by (auto simp: sublist_Cons_right)
  from Cons.IH [OF ns] np show ?case
    by (simp add: replace.simps [of old new "x # xs"])
qed

lemma strip_Nil: "strip [] = []"
  by (simp add: strip_def lstrip_def rstrip_def)

lemma finish_conversion_JObject:
  "finish_conversion fd (JObject entries) lang path tf =
     (if entries = [] then None
      else (case (case map_of entries ''content'' of None \<Rightarrow> JString [] | Some v \<Rightarrow> v) of
              JString c \<Rightarrow>
                if strip (replace (bs # ''n'') [CHR 0x0A] c) = [] then None
                else Some \<lparr>filename =
                             (case tf of
                                None \<Rightarrow> (case map_of entries ''filename'' of
                                           None \<Rightarrow> JString [] | Some v \<Rightarrow> v)
                              | Some fw \<Rightarrow>
                                  if fw = [] then (case map_of entries ''filename'' of
                                                     None \<Rightarrow> JString [] | Some v \<Rightarrow> v)
                                  else JString (fd lang fw path)),
                           content = replace (bs # ''n'') [CHR 0x0A] c,
                           dependencies = (case map_of entries ''dependencies'' of
                                             None \<Rightarrow> JObject [] | Some v \<Rightarrow> v),
                           notes = (case map_of entries ''notes'' of
                                      None \<Rightarrow> JString [] | Some v \<Rightarrow> v)\<rparr>
            | _ \<Rightarrow> None))"
proof -
  have r: "(if contains c (bs # ''n'') then replace (bs # ''n'') [CHR 0x0A] c else c)
             = replace (bs # ''n'') [CHR 0x0A] c" for c
    by (simp add: contains_def replace_absent)
  show ?thesis
    unfolding finish_conversion_def Let_def r by simp
qed

lemma finish_conversion_Some:
  assumes "finish_conversion fd d lang path tf = Some r"
  shows "\<exists>entries c. d = JObject entries \<and> map_of entries ''content'' = Some (JString c)
           \<and> content r = replace (bs # ''n'') [CHR 0x0A] c \<and> strip (content r) \<noteq> []"
proof -
  from assms obtain entries where d: "d = JObject entries"
    by (cases d) (simp_all add: finish_conversion_def)
  let ?v = "case map_of entries ''content'' of None \<Rightarrow> JString [] | Some v \<Rightarrow> v"
  from assms d obtain c where v: "?v = JString c"
    by (cases ?v) (simp_all add: finish_conversion_JObject split: if_splits)
  from assms d v have ne: "strip (replace (bs # ''n'') [CHR 0x0A] c) \<noteq> []"
    and r: "content r = replace (bs # ''n'') [CHR 0x0A] c"
    by (auto simp: finish_conversion_JObject split: if_splits)
  have "map_of entries ''content'' = Some (JString c)"
  proof (cases "map_of entries ''content''")
    case None
    with v have "c = []" by simp
    with ne show ?thesis
      by (simp add: replace.simps [of _ _ "[]"] strip_Nil)
  next
    case (Some w)
    with v show ?thesis by simp
  qed
  with d r ne show ?thesis by simp
qed

lemma parse_direct:
  assumes "json_candidate s = Some js" and "loads js = Inr (JObject entries)"
  shows "parse_single_file_conversion loads fd s lang path tf
           = finish_conversion fd (JObject entries) lang path tf"
  using assms by (simp add: parse_single_file_conversion_def recover_json_def)

text \<open>
  C3, as the claim states it, fails: the returned content is not always the parsed
  object's \<open>content\<close> field. The JSON text \<open>{"content":"a\\nb"}\<close> parses directly, its
  field is the four characters \<open>a\<close>, backslash, \<open>n\<close>, \<open>b\<close>, and the parser
  returns the three characters \<open>a\<close>, newline, \<open>b\<close>.
\<close>

theorem direct_parse_content_is_unescaped:
  \<open>json_loads (''{"content":"a'' @ [bs, bs] @ ''nb"}'')
     = Inr (JObject [(''content'', JString (''a'' @ [bs] @ ''nb''))])
   \<and> map_option content
        (parse_single_file_conversion json_loads (\<lambda>l f p. p)
           (''{"content":"a'' @ [bs, bs] @ ''nb"}'') ''python'' ''a.java'' None)
     = Some ''a\<newline>b''
   \<and> ''a\<newline>b'' \<noteq> ''a'' @ [bs] @ ''nb''\<close>
  by code_simp

text \<open>
  C3, amended. When the text has a \<open>{\<close> and a \<open>}\<close> and the substring from the first
  \<open>{\<close> through the last \<open>}\<close> parses to an object, the result is decided by that
  object alone (neither the repair nor the manual extraction has a part in it): every
  returned result has as content the object's \<open>content\<close> string with each
  backslash-\<open>n\<close> pair replaced by a newline, and when that string has no such pair and
  is not blank the content is the field itself. The well-formed example of the claim
  returns content \<open>x=1\<close> with its file name, dependencies and notes.
\<close>

theorem direct_parse_ends_the_chain:
  \<open>(json_candidate s = Some js \<and> loads js = Inr (JObject entries) \<longrightarrow>
      parse_single_file_conversion loads fd s lang path tf
        = finish_conversion fd (JObject entries) lang path tf
      \<and> (\<forall>r. parse_single_file_conversion loads fd s lang path tf = Some r \<longrightarrow>
             (\<exists>c. map_of entries ''content'' = Some (JString c)
                  \<and> content r = replace (bs # ''n'') [CHR 0x0A] c))
      \<and> (\<forall>c. map_of entries ''content'' = Some (JString c) \<and> \<not> contains c (bs # ''n'')
               \<and> strip c \<noteq> [] \<longrightarrow>
             map_option content (parse_single_file_conversion loads fd s lang path tf) = Some c))
   \<and> parse_single_file_conversion json_loads fd
        ''{"filename":"a.py","content":"x=1","dependencies":{},"notes":"ok"}'' lang path None
      = Some \<lparr>filename = JString ''a.py'', content = ''x=1'', dependencies = JObject [],
               notes = JString ''ok''\<rparr>\<close>
proof (intro conjI impI)
  assume h: "json_candidate s = Some js \<and> loads js = Inr (JObject entries)"
  then have eq: "parse_single_file_conversion loads fd s lang path tf
        = finish_conversion fd (JObject entries) lang path tf"
    by (simp add: parse_direct)
  show "parse_single_file_conversion loads fd s lang path tf
        = finish_conversion fd (JObject entries) lang path tf"
    by (rule eq)
  show "\<forall>r. parse_single_file_conversion loads fd s lang path tf = Some r \<longrightarrow>
             (\<exists>c. map_of entries ''content'' = Some (JString c)
                  \<and> content r = replace (bs # ''n'') [CHR 0x0A] c)"
    using finish_conversion_Some [of fd "JObject entries" lang path tf] eq by auto
  show "\<forall>c. map_of entries ''content'' = Some (JString c) \<and> \<not> contains c (bs # ''n'')
               \<and> strip c \<noteq> [] \<longrightarrow>
             map_option content (parse_single_file_conversion loads fd s lang path tf) = Some c"
  proof (intro allI impI)
    fix c
    assume c: "map_of entries ''content'' = Some (JString c) \<and> \<not> contains c (bs # ''n'')
               \<and> strip c \<noteq> []"
    then have "entries \<noteq> []" by auto
    with c show "map_option content (parse_single_file_conversion loads fd s lang path tf) = Some c"
      by (simp add: eq finish_conversion_JObject contains_def replace_absent)
  qed
next
  let ?ex = \<open>''{"filename":"a.py","content":"x=1","dependencies":{},"notes":"ok"}''\<close>
  let ?obj = "[(''filename'', JString ''a.py''), (''content'', JString ''x=1''),
               (''dependencies'', JObject []), (''notes'', JString ''ok'')]"
  have a: "json_candidate ?ex = Some ?ex"
    by code_simp
  have b: "json_loads ?ex = Inr (JObject ?obj)"
    by code_simp
  have c: "replace (bs # ''n'') [CHR 0x0A] ''x=1'' = ''x=1''"
    by code_simp
  have d: "strip ''x=1'' \<noteq> []"
    by code_simp
  have "parse_single_file_conversion json_loads fd ?ex lang path None
          = finish_conversion fd (JObject ?obj) lang path None"
    by (rule parse_direct [where loads = json_loads, OF a b])
  also have "\<dots> = Some \<lparr>filename = JString ''a.py'', content = ''x=1'', dependencies = JObject [],
               notes = JString ''ok''\<rparr>"
    by (simp add: finish_conversion_JObject c d)
  finally show "parse_single_file_conversion json_loads fd ?ex lang path None
      = Some \<lparr>filename = JString ''a.py'', content = ''x=1'', dependencies = JObject [],
               notes = JString ''ok''\<rparr>" .
qed

theorem direct_parse_ends_the_chain_witness:
  \<open>json_candidate ''Sure: {"content":"y = 2"} Done.'' = Some ''{"content":"y = 2"}''
   \<and> json_loads ''{"content":"y = 2"}'' = Inr (JObject [(''content'', JString ''y = 2'')])
   \<and> map_option content
        (parse_single_file_conversion json_loads (\<lambda>l f p. p)
           ''Sure: {"content":"y = 2"} Done.'' ''python'' ''a.java'' None)
     = Some ''y = 2''\<close>
proof -
  have a: \<open>json_candidate ''Sure: {"content":"y = 2"} Done.'' = Some ''{"content":"y = 2"}''\<close>
    by code_simp
  have b: \<open>json_loads ''{"content":"y = 2"}'' = Inr (JObject [(''content'', JString ''y = 2'')])\<close>
    by code_simp
  have c: "map_of [(''content'', JString ''y = 2'')] ''content'' = Some (JString ''y = 2'')"
    by simp
  have d: "\<not> contains ''y = 2'' (bs # ''n'')"
    by code_simp
  have e: "strip ''y = 2'' \<noteq> []"
    by code_simp
  from direct_parse_ends_the_chain
         [where s = \<open>''Sure: {"content":"y = 2"} Done.''\<close> and js = \<open>''{"content":"y = 2"}''\<close>
            and loads = json_loads and entries = "[(''content'', JString ''y = 2'')]"
            and fd = "\<lambda>l f p. p" and lang = "''python''" and path = "''a.java''" and tf = None]
       a b c d e
  have \<open>map_option content
        (parse_single_file_conversion json_loads (\<lambda>l f p. p)
           ''Sure: {"content":"y = 2"} Done.'' ''python'' ''a.java'' None)
     = Some ''y = 2''\<close>
    by blast
  with a b show ?thesis by blast
qed



text \<open>
  C7. The repair does not escape an embedded double quote. Group 1 of the content pattern
  starts with \<open>[^"]*\<close>, which also consumes backslashes, so the group always ends at
  the first double quote after the opening one and never contains a quote:
  \<open>content.replace('"', '\\"')\<close> has nothing to replace. For \<open>{"content":"a"b"}\<close>
  the repaired string is the input, the second parse fails as the first did, and the
  manual extraction returns the truncated content \<open>a\<close>.
\<close>

theorem repair_leaves_embedded_quote:
  \<open>fix_common_json_issues ''{"content":"a"b"}'' = ''{"content":"a"b"}''
   \<and> json_loads ''{"content":"a"b"}'' = Inl JSONDecodeError
   \<and> map_option content
        (parse_single_file_conversion json_loads (\<lambda>l f p. p)
           ''{"content":"a"b"}'' ''python'' ''a.java'' None) = Some ''a''\<close>
  by code_simp

text \<open>
  The trailing-comma example of the same claim does hold: the direct parse fails, the
  repair removes the comma and the second parse gives content \<open>x=1\<close>.
\<close>

lemma repair_trailing_comma_example:
  \<open>json_loads ''{"filename":"a.py","content":"x=1","dependencies":{},"notes":"ok",}''
     = Inl JSONDecodeError
   \<and> fix_common_json_issues ''{"filename":"a.py","content":"x=1","dependencies":{},"notes":"ok",}''
     = ''{"filename":"a.py","content":"x=1","dependencies":{},"notes":"ok"}''
   \<and> parse_single_file_conversion json_loads (\<lambda>l f p. p)
      ''{"filename":"a.py","content":"x=1","dependencies":{},"notes":"ok",}'' ''python'' ''a.java'' None
     = Some \<lparr>filename = JString ''a.py'', content = ''x=1'', dependencies = JObject [],
              notes = JString ''ok''\<rparr>\<close>
  by code_simp


end
